theory Spec2Isabelle
  imports Main "HOL-Library.Word"
begin

section \<open>The co2meter USB driver (drivers/usb/misc/co2meter.c)\<close>

text \<open>
  The driver is modelled sequentially: every entry point (\<open>co2meter_probe\<close>,
  \<open>co2meter_handle_input\<close>, \<open>co2meter_open\<close>, \<open>co2meter_read\<close>,
  \<open>co2meter_release\<close>, \<open>co2meter_disconnect\<close>) is a function from the kernel state
  before the call to the state after it. What the surrounding kernel decides (whether
  \<open>kzalloc\<close> succeeds, what \<open>usb_bulk_msg\<close> delivers, which minor number is handed
  out) is an argument of the function.

  A call that cannot return is a value of type \<open>stop\<close>: \<open>mutex_lock\<close> on a mutex that
  is held by an operation which has already returned sleeps forever, and a dereference
  of a null or a freed pointer is a kernel fault.
\<close>

subsection \<open>Data\<close>

type_synonym u8 = "8 word"
type_synonym u32 = "32 word"

datatype stop = MutexBlocked | NullPointer | FreedPointer

text \<open>A \<open>kzalloc\<close>ed object is live until \<open>kfree\<close>; the freed memory keeps its last
  contents, and the pointers to it dangle.\<close>

datatype 'a kmem = Live 'a | Freed 'a

fun deref :: "'a kmem option \<Rightarrow> stop + 'a" where
  "deref None = Inl NullPointer"
| "deref (Some (Freed x)) = Inl FreedPointer"
| "deref (Some (Live x)) = Inr x"

text \<open>\<open>struct usb_co2meter\<close>. \<open>lock\<close> is \<open>True\<close> while the mutex is held;
  \<open>work_data\<close> is \<open>True\<close> while the work item is queued to run. The device, endpoint
  and interface are kept as the numbers that identify them.\<close>

record usb_co2meter =
  lock :: bool
  work_data :: bool
  active_device :: nat
  read_endpoint :: u8
  active_interface :: nat
  co2_level :: u32
  ready :: int

text \<open>\<open>struct co2meter_file_data\<close>: \<open>char buf[CO2METER_DATA_SIZE]\<close> and \<open>buf_size\<close>.\<close>

record co2meter_file_data =
  buf :: string
  buf_size :: nat

text \<open>The messages the driver writes with \<open>dev_err\<close>.\<close>

datatype message = NoBuffer | NoEndpoint int | NoMinor int

text \<open>
  The kernel state the driver works on, for the one interface it is bound to:
  \<^item> \<open>minor\<close>: the minor number \<open>usb_register_dev\<close> gave the interface, \<open>None\<close> before
    registration and after \<open>usb_deregister_dev\<close>; \<open>usb_find_interface\<close> looks it up;
  \<^item> \<open>intfdata\<close>: what \<open>usb_get_intfdata\<close> returns, \<open>None\<close> for \<open>NULL\<close>;
  \<^item> \<open>private_data\<close>: \<open>file->private_data\<close> of every \<open>struct file\<close>, \<open>None\<close> for \<open>NULL\<close>;
  \<^item> \<open>dmesg\<close>: the messages logged so far.
\<close>

record kernel =
  minor :: "nat option"
  intfdata :: "usb_co2meter kmem option"
  private_data :: "nat \<Rightarrow> co2meter_file_data kmem option"
  dmesg :: "message list"

definition ENOMEM :: int where "ENOMEM = 12"
definition ENODEV :: int where "ENODEV = 19"
definition USB_BUF_SIZE :: nat where "USB_BUF_SIZE = 16"
definition CO2METER_DATA_SIZE :: nat where "CO2METER_DATA_SIZE = 32"

subsection \<open>Kernel primitives the driver calls\<close>

definition mutex_lock :: "usb_co2meter \<Rightarrow> stop + usb_co2meter" where
  "mutex_lock dev = (if lock dev then Inl MutexBlocked else Inr (dev\<lparr>lock := True\<rparr>))"

definition mutex_unlock :: "usb_co2meter \<Rightarrow> usb_co2meter" where
  "mutex_unlock dev = dev\<lparr>lock := False\<rparr>"

definition schedule_work :: "usb_co2meter \<Rightarrow> usb_co2meter" where
  "schedule_work dev = dev\<lparr>work_data := True\<rparr>"

definition cancel_work_sync :: "usb_co2meter \<Rightarrow> usb_co2meter" where
  "cancel_work_sync dev = dev\<lparr>work_data := False\<rparr>"

text \<open>What one call of \<open>usb_bulk_msg\<close> hands back: its return value, the transfer
  size it stores, and the bytes the device sent.\<close>

record bulk_msg =
  retval :: int
  transfer_size :: int
  payload :: "u8 list"

text \<open>The transfer buffer after the call: \<open>USB_BUF_SIZE\<close> bytes, zeroed by \<open>kzalloc\<close>,
  the bytes received written over its start.\<close>

definition rx_buffer :: "bulk_msg \<Rightarrow> u8 list" where
  "rx_buffer msg = take USB_BUF_SIZE (payload msg @ replicate USB_BUF_SIZE 0)"

subsection \<open>The poll loop: \<open>co2meter_handle_input\<close>\<close>

text \<open>
  The condition of the \<open>if\<close> at lines 104 to 108. The operands of
  \<open>buf[0] + buf[1] + buf[2] == buf[3]\<close> are \<open>u8\<close>; C promotes each to \<open>int\<close> before
  adding and comparing, so the sum is the integer sum (at most 765) and nothing wraps
  around: \<open>uint\<close> reads each byte as that integer.
\<close>

definition frame_accepted :: "bulk_msg \<Rightarrow> bool" where
  "frame_accepted msg =
     (let buf = rx_buffer msg in
      retval msg = 0 \<and>
      5 \<le> transfer_size msg \<and>
      buf ! 0 = 0x50 \<and>
      uint (buf ! 0) + uint (buf ! 1) + uint (buf ! 2) = uint (buf ! 3) \<and>
      buf ! 4 = 0x0d)"

text \<open>\<open>(buf[1] * 256) + buf[2]\<close>, computed in \<open>int\<close> and stored in the \<open>u32\<close> field.\<close>

definition frame_level :: "bulk_msg \<Rightarrow> u32" where
  "frame_level msg =
     (let buf = rx_buffer msg in word_of_int (uint (buf ! 1) * 256 + uint (buf ! 2)))"

text \<open>One run of the work item. \<open>buf_alloc\<close> says whether \<open>kzalloc\<close> returned a
  buffer; \<open>msg\<close> is what \<open>usb_bulk_msg\<close> hands back when it is called.\<close>

definition co2meter_handle_input :: "bool \<Rightarrow> bulk_msg \<Rightarrow> kernel \<Rightarrow> stop + kernel" where
  "co2meter_handle_input buf_alloc msg k =
     (case deref (intfdata k) of
        Inl e \<Rightarrow> Inl e
      | Inr dev \<Rightarrow>
          (case mutex_lock dev of
             Inl e \<Rightarrow> Inl e
           | Inr dev1 \<Rightarrow>
               if \<not> buf_alloc then
                 Inr (k\<lparr>intfdata := Some (Live (schedule_work dev1)),
                        dmesg := dmesg k @ [NoBuffer]\<rparr>)
               else
                 let dev2 = mutex_unlock dev1 in
                 if frame_accepted msg then
                   (case mutex_lock dev2 of
                      Inl e \<Rightarrow> Inl e
                    | Inr dev3 \<Rightarrow>
                        let dev4 = dev3\<lparr>ready := 1\<rparr>;
                            dev5 = dev4\<lparr>co2_level := frame_level msg\<rparr>;
                            dev6 = mutex_unlock dev5
                        in Inr (k\<lparr>intfdata := Some (Live (schedule_work dev6))\<rparr>))
                 else Inr (k\<lparr>intfdata := Some (Live (schedule_work dev2))\<rparr>)))"

subsection \<open>Attach and detach: \<open>co2meter_probe\<close>, \<open>co2meter_disconnect\<close>\<close>

text \<open>
  \<open>interface\<close> and \<open>udev\<close> identify the interface and its device; \<open>dev_alloc\<close> says
  whether \<open>kzalloc\<close> returned the device structure; \<open>ep_retval\<close> and \<open>ep\<close> are what
  \<open>usb_find_common_endpoints\<close> returns and the address of the endpoint it found;
  \<open>reg_retval\<close> and \<open>new_minor\<close> are what \<open>usb_register_dev\<close> returns and the minor
  number it assigned. A structure that probe frees was never reachable from the
  kernel state.
\<close>

definition co2meter_probe ::
    "nat \<Rightarrow> nat \<Rightarrow> bool \<Rightarrow> int \<Rightarrow> u8 \<Rightarrow> int \<Rightarrow> nat \<Rightarrow> kernel \<Rightarrow> int \<times> kernel" where
  "co2meter_probe interface udev dev_alloc ep_retval ep reg_retval new_minor k =
     (if \<not> dev_alloc then (- ENOMEM, k)
      else
        let dev = \<lparr>lock = False, work_data = False, active_device = udev,
                   read_endpoint = ep, active_interface = interface,
                   co2_level = 0, ready = 0\<rparr>
        in if ep_retval \<noteq> 0 then (ep_retval, k\<lparr>dmesg := dmesg k @ [NoEndpoint ep_retval]\<rparr>)
           else if reg_retval \<noteq> 0 then (reg_retval, k\<lparr>dmesg := dmesg k @ [NoMinor reg_retval]\<rparr>)
           else (0, k\<lparr>minor := Some new_minor,
                        intfdata := Some (Live (schedule_work dev))\<rparr>))"

text \<open>\<open>co2meter_delete\<close> is \<open>kfree\<close>.\<close>

definition co2meter_delete :: "usb_co2meter \<Rightarrow> usb_co2meter kmem" where
  "co2meter_delete dev = Freed dev"

definition co2meter_disconnect :: "kernel \<Rightarrow> stop + kernel" where
  "co2meter_disconnect k =
     (case deref (intfdata k) of
        Inl e \<Rightarrow> Inl e
      | Inr dev \<Rightarrow>
          let dev1 = cancel_work_sync dev in
          (case mutex_lock dev1 of
             Inl e \<Rightarrow> Inl e
           | Inr dev2 \<Rightarrow>
               Inr (k\<lparr>minor := None, intfdata := Some (co2meter_delete dev2)\<rparr>)))"

subsection \<open>The consumer session: \<open>co2meter_open\<close>, \<open>co2meter_read\<close>, \<open>co2meter_release\<close>\<close>

definition digit :: "nat \<Rightarrow> char" where
  "digit d = ''0123456789'' ! d"

fun decimal :: "nat \<Rightarrow> string" where
  "decimal n = (if n < 10 then [digit n] else decimal (n div 10) @ [digit (n mod 10)])"

declare decimal.simps [simp del]

text \<open>
  Modelled from the spec: \<open>scnprintf\<close> (lib/vsprintf.c) is not among the sources. The
  call \<open>scnprintf(buf, sz, "%u\n", v)\<close> formats \<open>v\<close> "as ASCII decimal followed by a
  newline into the session buffer"; of that text it writes at most \<open>sz - 1\<close>
  characters and returns how many it wrote.
\<close>

definition scnprintf :: "nat \<Rightarrow> u32 \<Rightarrow> string" where
  "scnprintf sz v = take (sz - 1) (decimal (unat v) @ [CHR 0x0A])"

text \<open>
  \<open>iminor\<close> is the minor number of the inode, \<open>file\<close> identifies the \<open>struct file\<close>,
  \<open>data_alloc\<close> says whether \<open>kzalloc\<close> returned the session structure. The result of
  \<open>kzalloc\<close> is used unchecked: when it is \<open>NULL\<close>, the write to \<open>file_data->buf_size\<close>
  is a null dereference.
\<close>

definition co2meter_open :: "nat \<Rightarrow> nat \<Rightarrow> bool \<Rightarrow> kernel \<Rightarrow> stop + int \<times> kernel" where
  "co2meter_open iminor file data_alloc k =
     (if minor k \<noteq> Some iminor then Inr (- ENODEV, k)
      else
        (case deref (intfdata k) of
           Inl e \<Rightarrow> Inl e
         | Inr dev \<Rightarrow>
             (case mutex_lock dev of
                Inl e \<Rightarrow> Inl e
              | Inr dev1 \<Rightarrow>
                  if ready dev1 = 0 then
                    Inr (- ENODEV, k\<lparr>intfdata := Some (Live (mutex_unlock dev1))\<rparr>)
                  else if \<not> data_alloc then Inl NullPointer
                  else
                    let text = scnprintf CO2METER_DATA_SIZE (co2_level dev1);
                        file_data =
                          \<lparr>buf = text @ replicate (CO2METER_DATA_SIZE - length text) (CHR 0x00),
                           buf_size = length text\<rparr>
                    in Inr (0, k\<lparr>private_data := (private_data k)(file := Some (Live file_data)),
                                  intfdata := Some (Live (mutex_unlock dev1))\<rparr>))))"

text \<open>
  Modelled from the spec: \<open>simple_read_from_buffer\<close> (fs/libfs.c) is not among the
  sources. It serves "bytes from the session's formatted buffer at the caller-supplied
  offset/count, standard bounded-copy semantics (return 0 once offset reaches
  end-of-buffer, signalling end of data)". The result is the return value, the bytes
  copied to the caller's buffer, and the new offset. The offset is never negative (the
  file layer refuses a negative one before the driver is called), and the caller's
  buffer is taken to be writable.
\<close>

definition simple_read_from_buffer :: "nat \<Rightarrow> nat \<Rightarrow> string \<Rightarrow> nat \<Rightarrow> int \<times> string \<times> nat" where
  "simple_read_from_buffer count ppos from available =
     (if available \<le> ppos \<or> count = 0 then (0, [], ppos)
      else
        let n = min count (available - ppos)
        in (int n, take n (drop ppos from), ppos + n))"

definition co2meter_read ::
    "nat \<Rightarrow> nat \<Rightarrow> nat \<Rightarrow> kernel \<Rightarrow> stop + (int \<times> string \<times> nat) \<times> kernel" where
  "co2meter_read file count ppos k =
     (case private_data k file of
        None \<Rightarrow> Inr ((- ENODEV, [], ppos), k)
      | Some (Freed file_data) \<Rightarrow> Inl FreedPointer
      | Some (Live file_data) \<Rightarrow>
          Inr (simple_read_from_buffer count ppos (buf file_data) (buf_size file_data), k))"

definition co2meter_release :: "nat \<Rightarrow> kernel \<Rightarrow> stop + int \<times> kernel" where
  "co2meter_release file k =
     (case private_data k file of
        None \<Rightarrow> Inr (0, k)
      | Some (Freed file_data) \<Rightarrow> Inl FreedPointer
      | Some (Live file_data) \<Rightarrow>
          Inr (0, k\<lparr>private_data := (private_data k)(file := Some (Freed file_data))\<rparr>))"

subsection \<open>What the specification calls a decimal rendering\<close>

text \<open>A text is the decimal rendering of \<open>n\<close> when it is made of the digits \<open>0\<close> to
  \<open>9\<close>, has no leading zero unless it is the single digit \<open>0\<close>, and reads back as \<open>n\<close>.\<close>

definition digit_value :: "char \<Rightarrow> nat" where
  "digit_value c = of_char c - 48"

definition is_digit :: "char \<Rightarrow> bool" where
  "is_digit c = (c \<in> set ''0123456789'')"

definition decimal_value :: "string \<Rightarrow> nat" where
  "decimal_value ds = foldl (\<lambda>a c. 10 * a + digit_value c) 0 ds"

definition is_decimal_of :: "string \<Rightarrow> nat \<Rightarrow> bool" where
  "is_decimal_of ds n =
     (ds \<noteq> [] \<and> list_all is_digit ds \<and> (length ds = 1 \<or> hd ds \<noteq> CHR ''0'') \<and>
      decimal_value ds = n)"

subsection \<open>A device after attach\<close>

text \<open>The empty kernel state, and the state after a successful probe of interface 0
  of device 0, with endpoint address \<open>0x81\<close> and minor number 192
  (\<open>CO2MON_MINOR_BASE\<close>).\<close>

definition boot :: kernel where
  "boot = \<lparr>minor = None, intfdata = None, private_data = (\<lambda>f. None), dmesg = []\<rparr>"

definition attached :: kernel where
  "attached = snd (co2meter_probe 0 0 True 0 0x81 0 192 boot)"

definition attached_dev :: usb_co2meter where
  "attached_dev = \<lparr>lock = False, work_data = True, active_device = 0, read_endpoint = 0x81,
                    active_interface = 0, co2_level = 0, ready = 0\<rparr>"

text \<open>A frame that carries the reading 400, and the state after the poll loop has
  processed it on the freshly attached device.\<close>

definition frame_400 :: bulk_msg where
  "frame_400 = \<lparr>retval = 0, transfer_size = 5, payload = [0x50, 0x01, 0x90, 0xE1, 0x0d]\<rparr>"

definition warmed :: kernel where
  "warmed = (case co2meter_handle_input True frame_400 attached of
               Inr k \<Rightarrow> k
             | Inl e \<Rightarrow> attached)"

definition warmed_dev :: usb_co2meter where
  "warmed_dev = attached_dev\<lparr>co2_level := 400, ready := 1\<rparr>"

text \<open>The state after \<open>open\<close> of minor 192 on file 0 of the warmed device, and a frame
  that carries the reading 512.\<close>

definition opened :: kernel where
  "opened = (case co2meter_open 192 0 True warmed of
               Inr (r, k) \<Rightarrow> k
             | Inl e \<Rightarrow> warmed)"

definition session_400 :: co2meter_file_data where
  "session_400 = \<lparr>buf = ''400'' @ [CHR 0x0A] @ replicate 28 (CHR 0x00), buf_size = 4\<rparr>"

definition frame_512 :: bulk_msg where
  "frame_512 = \<lparr>retval = 0, transfer_size = 5, payload = [0x50, 0x02, 0x00, 0x52, 0x0d]\<rparr>"

text \<open>The state after the poll loop has processed \<open>frame_512\<close> while the session on
  file 0 is open.\<close>

definition refreshed :: kernel where
  "refreshed = (case co2meter_handle_input True frame_512 opened of
                  Inr k \<Rightarrow> k
                | Inl e \<Rightarrow> opened)"

text \<open>A frame whose three-byte sum, 336, equals its fourth byte only modulo 256.\<close>

definition frame_wrapped :: bulk_msg where
  "frame_wrapped = \<lparr>retval = 0, transfer_size = 5, payload = [0x50, 0xFF, 0x01, 0x50, 0x0d]\<rparr>"

text \<open>The states after \<open>release\<close> of file 0, and after a second \<open>open\<close>, on file 1.\<close>

definition closed :: kernel where
  "closed = opened\<lparr>private_data := (private_data opened)(0 := Some (Freed session_400))\<rparr>"

definition opened_twice :: kernel where
  "opened_twice = (case co2meter_open 192 1 True opened of
                     Inr (r, k) \<Rightarrow> k
                   | Inl e \<Rightarrow> opened)"

section \<open>Properties\<close>

subsection \<open>Auxiliary facts\<close>

lemma rx_buffer_length: "length (rx_buffer msg) = 16"
  by (simp add: rx_buffer_def USB_BUF_SIZE_def)

lemma rx_buffer_nth:
  "i < length (payload msg) \<Longrightarrow> i < 16 \<Longrightarrow> rx_buffer msg ! i = payload msg ! i"
  by (simp add: rx_buffer_def USB_BUF_SIZE_def nth_append)

lemma handle_input_rejected:
  assumes "intfdata k = Some (Live dev)" and "\<not> lock dev" and "\<not> frame_accepted msg"
  shows "co2meter_handle_input True msg k =
           Inr (k\<lparr>intfdata := Some (Live (dev\<lparr>work_data := True\<rparr>))\<rparr>)"
  using assms
  by (simp add: co2meter_handle_input_def mutex_lock_def mutex_unlock_def schedule_work_def)

lemma handle_input_accepted:
  assumes "intfdata k = Some (Live dev)" and "\<not> lock dev" and "frame_accepted msg"
  shows "co2meter_handle_input True msg k =
           Inr (k\<lparr>intfdata := Some (Live (dev\<lparr>work_data := True, ready := 1,
                                               co2_level := frame_level msg\<rparr>))\<rparr>)"
  using assms
  by (simp add: co2meter_handle_input_def mutex_lock_def mutex_unlock_def schedule_work_def)

lemma byte_mod_256: "uint (b :: u8) mod 256 = uint b"
proof -
  have "uint b < 256" using uint_lt2p [of b] by simp
  then show ?thesis by simp
qed

lemma attached_eq:
  "attached = \<lparr>minor = Some 192, intfdata = Some (Live attached_dev),
               private_data = (\<lambda>f. None), dmesg = []\<rparr>"
  by (simp add: attached_def co2meter_probe_def boot_def schedule_work_def attached_dev_def)

lemma frame_400_accepted: "frame_accepted frame_400"
  by (simp add: frame_accepted_def frame_400_def rx_buffer_def USB_BUF_SIZE_def)

lemma frame_400_level: "frame_level frame_400 = 400"
  by (simp add: frame_level_def frame_400_def rx_buffer_def USB_BUF_SIZE_def)

lemma warmed_eq:
  "warmed = \<lparr>minor = Some 192, intfdata = Some (Live warmed_dev),
             private_data = (\<lambda>f. None), dmesg = []\<rparr>"
proof -
  have "co2meter_handle_input True frame_400 attached =
          Inr (attached\<lparr>intfdata := Some (Live (attached_dev\<lparr>work_data := True, ready := 1,
                                                  co2_level := frame_level frame_400\<rparr>))\<rparr>)"
    by (rule handle_input_accepted) (simp_all add: attached_eq attached_dev_def frame_400_accepted)
  then show ?thesis
    by (simp add: warmed_def frame_400_level attached_eq warmed_dev_def attached_dev_def)
qed

lemma digit_value_digit: "d < 10 \<Longrightarrow> digit_value (digit d) = d"
proof -
  assume "d < 10"
  then have "d \<in> {0, 1, 2, 3, 4, 5, 6, 7, 8, 9}" by auto
  then show ?thesis by (auto simp add: digit_value_def digit_def)
qed

lemma is_digit_digit: "d < 10 \<Longrightarrow> is_digit (digit d)"
proof -
  assume "d < 10"
  then have "d \<in> {0, 1, 2, 3, 4, 5, 6, 7, 8, 9}" by auto
  then show ?thesis by (auto simp add: is_digit_def digit_def)
qed

lemma digit_zero: "d < 10 \<Longrightarrow> digit d = CHR ''0'' \<Longrightarrow> d = 0"
proof -
  assume "d < 10" and z: "digit d = CHR ''0''"
  then have "d \<in> {0, 1, 2, 3, 4, 5, 6, 7, 8, 9}" by auto
  then show ?thesis using z by (auto simp add: digit_def)
qed

lemma decimal_nonempty: "decimal n \<noteq> []"
  by (subst decimal.simps) simp

lemma decimal_value_snoc: "decimal_value (ds @ [c]) = 10 * decimal_value ds + digit_value c"
  by (simp add: decimal_value_def)

lemma decimal_value_decimal: "decimal_value (decimal n) = n"
proof (induction n rule: decimal.induct)
  case (1 n)
  show ?case
  proof (cases "n < 10")
    case True
    then show ?thesis
      by (subst decimal.simps) (simp add: decimal_value_def digit_value_digit)
  next
    case False
    then have "decimal_value (decimal (n div 10)) = n div 10" using 1 by simp
    then show ?thesis using False
      by (subst decimal.simps) (simp add: decimal_value_snoc digit_value_digit)
  qed
qed

lemma decimal_digits: "list_all is_digit (decimal n)"
proof (induction n rule: decimal.induct)
  case (1 n)
  show ?case
  proof (cases "n < 10")
    case True
    then show ?thesis by (subst decimal.simps) (simp add: is_digit_digit)
  next
    case False
    then have "list_all is_digit (decimal (n div 10))" using 1 by simp
    then show ?thesis using False by (subst decimal.simps) (simp add: is_digit_digit)
  qed
qed

lemma decimal_no_leading_zero: "0 < n \<Longrightarrow> hd (decimal n) \<noteq> CHR ''0''"
proof (induction n rule: decimal.induct)
  case (1 n)
  show ?case
  proof (cases "n < 10")
    case True
    then show ?thesis using "1.prems" digit_zero [of n]
      by (subst decimal.simps) auto
  next
    case False
    then have "hd (decimal (n div 10)) \<noteq> CHR ''0''" using 1 by simp
    then show ?thesis using False decimal_nonempty [of "n div 10"]
      by (subst decimal.simps) simp
  qed
qed

lemma decimal_zero: "decimal 0 = ''0''"
  by (simp add: decimal.simps digit_def)

lemma decimal_is_decimal: "is_decimal_of (decimal n) n"
proof (cases "n = 0")
  case True
  then show ?thesis
    by (simp add: is_decimal_of_def decimal_zero decimal_value_def digit_value_def is_digit_def)
next
  case False
  then show ?thesis
    by (simp add: is_decimal_of_def decimal_nonempty decimal_digits decimal_no_leading_zero
        decimal_value_decimal)
qed

lemma decimal_length: "0 < j \<Longrightarrow> n < 10 ^ j \<Longrightarrow> length (decimal n) \<le> j"
proof (induction n arbitrary: j rule: decimal.induct)
  case (1 n)
  show ?case
  proof (cases "n < 10")
    case True
    then show ?thesis using "1.prems" by (subst decimal.simps) simp
  next
    case False
    obtain i where j: "j = Suc i" using "1.prems"(1) by (cases j) auto
    have "0 < i" using False "1.prems"(2) j by (cases i) auto
    moreover have "n div 10 < 10 ^ i" using "1.prems"(2) j by (simp add: less_mult_imp_div_less)
    ultimately have "length (decimal (n div 10)) \<le> i" using 1 False by simp
    then show ?thesis using False j by (subst decimal.simps) simp
  qed
qed

lemma decimal_u32_length: "length (decimal (unat (v :: u32))) \<le> 10"
proof -
  have "unat v < 2 ^ 32" using unsigned_less [of v, where ?'a = nat] by simp
  then have "unat v < 10 ^ 10" by simp
  then show ?thesis using decimal_length [of 10 "unat v"] by simp
qed

lemma scnprintf_u32: "scnprintf 32 v = decimal (unat v) @ [CHR 0x0A]"
  using decimal_u32_length [of v] by (simp add: scnprintf_def)

lemma simple_read_from_buffer_eq:
  "simple_read_from_buffer count pos from available =
     (int (min count (available - pos)),
      take (min count (available - pos)) (drop pos (take available from)),
      pos + min count (available - pos))"
  by (auto simp add: simple_read_from_buffer_def Let_def drop_take min_def)

lemma decimal_400: "decimal 400 = ''400''"
  by (simp add: decimal.simps digit_def)

lemma open_warmed:
  "co2meter_open 192 0 True warmed =
     Inr (0, warmed\<lparr>private_data := (private_data warmed)(0 := Some (Live session_400))\<rparr>)"
proof -
  have four: "Suc (Suc (Suc (Suc 0))) = 4" by simp
  show ?thesis
    by (simp add: co2meter_open_def warmed_eq warmed_dev_def attached_dev_def mutex_lock_def
        mutex_unlock_def scnprintf_u32 decimal_400 session_400_def CO2METER_DATA_SIZE_def
        Let_def four)
qed

lemma opened_eq:
  "opened = \<lparr>minor = Some 192, intfdata = Some (Live warmed_dev),
             private_data = (\<lambda>f. None)(0 := Some (Live session_400)), dmesg = []\<rparr>"
  unfolding opened_def open_warmed by (simp add: warmed_eq)

lemma unlocked_again:
  assumes "intfdata k = Some (Live dev)" and "\<not> lock dev"
  shows "k\<lparr>private_data := p, intfdata := Some (Live (dev\<lparr>lock := False\<rparr>))\<rparr> =
         k\<lparr>private_data := p\<rparr>"
proof -
  have "dev\<lparr>lock := False\<rparr> = dev" using assms(2) by simp
  then show ?thesis using assms(1) by simp
qed

lemma open_success:
  assumes "co2meter_open m f a k = Inr (0, k')"
  shows "\<exists>dev. minor k = Some m \<and> intfdata k = Some (Live dev) \<and> \<not> lock dev \<and> ready dev \<noteq> 0 \<and> a \<and>
           k' = k\<lparr>private_data := (private_data k)(f := Some (Live
                     \<lparr>buf = scnprintf CO2METER_DATA_SIZE (co2_level dev) @
                             replicate (CO2METER_DATA_SIZE - length (scnprintf CO2METER_DATA_SIZE (co2_level dev))) (CHR 0x00),
                      buf_size = length (scnprintf CO2METER_DATA_SIZE (co2_level dev))\<rparr>))\<rparr>"
proof -
  have m: "minor k = Some m"
    using assms by (auto simp add: co2meter_open_def ENODEV_def split: if_splits)
  obtain dev where d: "intfdata k = Some (Live dev)"
    using assms m by (cases "intfdata k" rule: deref.cases) (auto simp add: co2meter_open_def)
  have l: "\<not> lock dev"
    using assms m d by (auto simp add: co2meter_open_def mutex_lock_def split: if_splits)
  have r: "ready dev \<noteq> 0"
    using assms m d l by (auto simp add: co2meter_open_def mutex_lock_def ENODEV_def split: if_splits)
  have a: "a"
    using assms m d l r by (auto simp add: co2meter_open_def mutex_lock_def split: if_splits)
  have "k' = k\<lparr>private_data := (private_data k)(f := Some (Live
                     \<lparr>buf = scnprintf CO2METER_DATA_SIZE (co2_level dev) @
                             replicate (CO2METER_DATA_SIZE - length (scnprintf CO2METER_DATA_SIZE (co2_level dev))) (CHR 0x00),
                      buf_size = length (scnprintf CO2METER_DATA_SIZE (co2_level dev))\<rparr>))\<rparr>"
    using assms m d l r a
    by (simp add: co2meter_open_def mutex_lock_def mutex_unlock_def Let_def unlocked_again)
  then show ?thesis using m d l r a by blast
qed

lemma relocked: "\<not> lock dev \<Longrightarrow> dev\<lparr>lock := False\<rparr> = dev"
  by simp

lemma handle_input_sessions:
  "co2meter_handle_input b msg k = Inr k1 \<Longrightarrow> private_data k1 = private_data k"
  by (auto simp add: co2meter_handle_input_def Let_def split: sum.splits if_splits)

lemma open_device:
  assumes "co2meter_open m f a k = Inr (r, k2)"
  shows "intfdata k2 = intfdata k"
proof (cases "minor k = Some m")
  case False
  then show ?thesis using assms by (simp add: co2meter_open_def)
next
  case True
  then obtain dev where d: "intfdata k = Some (Live dev)"
    using assms by (cases "intfdata k" rule: deref.cases) (auto simp add: co2meter_open_def)
  have l: "\<not> lock dev"
    using assms True d by (auto simp add: co2meter_open_def mutex_lock_def split: if_splits)
  show ?thesis
    using assms True d l relocked [OF l]
    by (auto simp add: co2meter_open_def mutex_lock_def mutex_unlock_def Let_def
        split: if_splits)
qed

lemma open_other_sessions:
  "co2meter_open m f a k = Inr (r, k2) \<Longrightarrow> g \<noteq> f \<Longrightarrow> private_data k2 g = private_data k g"
  by (auto simp add: co2meter_open_def Let_def split: sum.splits if_splits)

lemma read_state: "co2meter_read f count pos k = Inr (x, k3) \<Longrightarrow> k3 = k"
  by (auto simp add: co2meter_read_def split: option.splits kmem.splits)

lemma release_device: "co2meter_release f k = Inr (r, k4) \<Longrightarrow> intfdata k4 = intfdata k"
  by (auto simp add: co2meter_release_def split: option.splits kmem.splits)

lemma release_other_sessions:
  "co2meter_release f k = Inr (r, k4) \<Longrightarrow> g \<noteq> f \<Longrightarrow> private_data k4 g = private_data k g"
  by (auto simp add: co2meter_release_def split: option.splits kmem.splits)

lemma open_same_text:
  assumes "co2meter_open m f a k = Inr (0, k2)" and "co2meter_open m' f' a' k' = Inr (0, k2')"
    and "intfdata k = Some (Live dev)" and "intfdata k' = Some (Live dev')"
    and "co2_level dev = co2_level dev'"
  shows "private_data k2 f = private_data k2' f'"
proof -
  obtain d where d: "intfdata k = Some (Live d)" "private_data k2 f = Some (Live
                     \<lparr>buf = scnprintf CO2METER_DATA_SIZE (co2_level d) @
                             replicate (CO2METER_DATA_SIZE - length (scnprintf CO2METER_DATA_SIZE (co2_level d))) (CHR 0x00),
                      buf_size = length (scnprintf CO2METER_DATA_SIZE (co2_level d))\<rparr>)"
    using open_success [OF assms(1)] by auto
  obtain d' where d': "intfdata k' = Some (Live d')" "private_data k2' f' = Some (Live
                     \<lparr>buf = scnprintf CO2METER_DATA_SIZE (co2_level d') @
                             replicate (CO2METER_DATA_SIZE - length (scnprintf CO2METER_DATA_SIZE (co2_level d'))) (CHR 0x00),
                      buf_size = length (scnprintf CO2METER_DATA_SIZE (co2_level d'))\<rparr>)"
    using open_success [OF assms(2)] by auto
  have "d = dev" "d' = dev'" using d(1) d'(1) assms(3,4) by simp_all
  then show ?thesis using d(2) d'(2) assms(5) by simp
qed

lemma frame_512_accepted: "frame_accepted frame_512"
  by (simp add: frame_accepted_def frame_512_def rx_buffer_def USB_BUF_SIZE_def)

lemma frame_512_level: "frame_level frame_512 = 512"
  by (simp add: frame_level_def frame_512_def rx_buffer_def USB_BUF_SIZE_def)

lemma handle_input_opened:
  "co2meter_handle_input True frame_512 opened =
     Inr (opened\<lparr>intfdata := Some (Live (warmed_dev\<lparr>co2_level := 512\<rparr>))\<rparr>)"
proof -
  have "co2meter_handle_input True frame_512 opened =
          Inr (opened\<lparr>intfdata := Some (Live (warmed_dev\<lparr>work_data := True, ready := 1,
                                                  co2_level := frame_level frame_512\<rparr>))\<rparr>)"
    by (rule handle_input_accepted)
       (simp_all add: opened_eq warmed_dev_def attached_dev_def frame_512_accepted)
  then show ?thesis
    by (simp add: frame_512_level warmed_dev_def attached_dev_def)
qed

lemma refreshed_eq:
  "refreshed = opened\<lparr>intfdata := Some (Live (warmed_dev\<lparr>co2_level := 512\<rparr>))\<rparr>"
  unfolding refreshed_def handle_input_opened by simp

subsection \<open>The poll loop\<close>

text \<open>
  Claim C2. An iteration of the poll loop whose buffer allocation fails logs the failure
  and reschedules itself, and afterwards later iterations and \<open>open\<close> can still take
  the guard.

  The code does the first half only. On the freshly attached device the failing
  iteration returns with the message logged and the work item queued again, but it
  returns from inside the critical section: the mutex taken at line 83 is still held.
  The next iteration and the next \<open>open\<close> on minor 192 both stop in \<open>mutex_lock\<close>.
\<close>

theorem alloc_failure_returns_with_guard_held:
  "(case co2meter_handle_input False msg attached of
      Inl e \<Rightarrow> False
    | Inr k \<Rightarrow>
        intfdata k = Some (Live (attached_dev\<lparr>lock := True, work_data := True\<rparr>)) \<and>
        dmesg k = [NoBuffer] \<and>
        co2meter_handle_input buf_alloc msg' k = Inl MutexBlocked \<and>
        co2meter_open 192 file data_alloc k = Inl MutexBlocked)"
  by (simp add: attached_eq attached_dev_def co2meter_handle_input_def co2meter_open_def
      mutex_lock_def schedule_work_def)

text \<open>
  Claim C3, as stated: a frame with \<open>byte[0] = 0x50\<close>, \<open>byte[4] = 0x0d\<close> and at least
  five bytes transferred is accepted exactly when \<open>(byte[0] + byte[1] + byte[2]) mod 256\<close>
  equals \<open>byte[3]\<close>. It fails on the frame \<open>50 ff 01 50 0d\<close>: the sum is 336, which is
  \<open>0x50\<close> modulo 256, and the frame is rejected; the device state stays as it was.
\<close>

theorem wrapped_checksum_frame_rejected:
  "(uint (0x50 :: u8) + uint (0xFF :: u8) + uint (0x01 :: u8)) mod 256 = uint (0x50 :: u8) \<and>
   \<not> frame_accepted \<lparr>retval = 0, transfer_size = 5, payload = [0x50, 0xFF, 0x01, 0x50, 0x0d]\<rparr> \<and>
   co2meter_handle_input True
     \<lparr>retval = 0, transfer_size = 5, payload = [0x50, 0xFF, 0x01, 0x50, 0x0d]\<rparr> attached =
   Inr attached \<and>
   intfdata attached = Some (Live attached_dev) \<and> ready attached_dev = 0"
  by (simp add: co2meter_handle_input_def mutex_lock_def mutex_unlock_def schedule_work_def
      attached_eq attached_dev_def frame_accepted_def rx_buffer_def USB_BUF_SIZE_def)

text \<open>
  Claim C3, amended: for every successful transfer of at least five bytes with
  \<open>byte[0] = 0x50\<close> and \<open>byte[4] = 0x0d\<close>, the checksum is compared in C's \<open>int\<close>
  arithmetic, without wrap-around: the frame is accepted (the iteration sets \<open>ready\<close>
  and stores the reading) exactly when the integer sum \<open>byte[0] + byte[1] + byte[2]\<close>
  equals \<open>byte[3]\<close>, and a frame whose sum exceeds 255 is always rejected.
\<close>

theorem checksum_compared_as_integer_sum:
  assumes "intfdata k = Some (Live dev)" and "\<not> lock dev"
    and "retval msg = 0" and "5 \<le> transfer_size msg"
    and "rx_buffer msg ! 0 = 0x50" and "rx_buffer msg ! 4 = 0x0d"
  shows "(frame_accepted msg \<longleftrightarrow>
            uint (rx_buffer msg ! 0) + uint (rx_buffer msg ! 1) + uint (rx_buffer msg ! 2) =
            uint (rx_buffer msg ! 3)) \<and>
         co2meter_handle_input True msg k =
           (if uint (rx_buffer msg ! 0) + uint (rx_buffer msg ! 1) + uint (rx_buffer msg ! 2) =
               uint (rx_buffer msg ! 3)
            then Inr (k\<lparr>intfdata := Some (Live (dev\<lparr>work_data := True, ready := 1,
                                                     co2_level := frame_level msg\<rparr>))\<rparr>)
            else Inr (k\<lparr>intfdata := Some (Live (dev\<lparr>work_data := True\<rparr>))\<rparr>)) \<and>
         (255 < uint (rx_buffer msg ! 0) + uint (rx_buffer msg ! 1) + uint (rx_buffer msg ! 2)
            \<longrightarrow> \<not> frame_accepted msg)"
proof -
  let ?sum = "uint (rx_buffer msg ! 0) + uint (rx_buffer msg ! 1) + uint (rx_buffer msg ! 2)"
  have acc: "frame_accepted msg \<longleftrightarrow> ?sum = uint (rx_buffer msg ! 3)"
    using assms(3-6) by (simp add: frame_accepted_def Let_def)
  have run: "co2meter_handle_input True msg k =
           (if ?sum = uint (rx_buffer msg ! 3)
            then Inr (k\<lparr>intfdata := Some (Live (dev\<lparr>work_data := True, ready := 1,
                                                     co2_level := frame_level msg\<rparr>))\<rparr>)
            else Inr (k\<lparr>intfdata := Some (Live (dev\<lparr>work_data := True\<rparr>))\<rparr>))"
  proof (cases "frame_accepted msg")
    case True
    then show ?thesis
      using handle_input_accepted [OF assms(1) assms(2) True] acc by simp
  next
    case False
    then show ?thesis
      using handle_input_rejected [OF assms(1) assms(2) False] acc by simp
  qed
  have "uint (rx_buffer msg ! 3) < 256"
    using uint_lt2p [of "rx_buffer msg ! 3"] by simp
  then have big: "255 < ?sum \<longrightarrow> \<not> frame_accepted msg"
    using acc by auto
  show ?thesis using acc run big by blast
qed

theorem checksum_compared_as_integer_sum_witness:
  "intfdata attached = Some (Live attached_dev) \<and> \<not> lock attached_dev \<and>
   retval frame_400 = 0 \<and> 5 \<le> transfer_size frame_400 \<and>
   rx_buffer frame_400 ! 0 = 0x50 \<and> rx_buffer frame_400 ! 4 = 0x0d \<and>
   uint (rx_buffer frame_400 ! 0) + uint (rx_buffer frame_400 ! 1) +
     uint (rx_buffer frame_400 ! 2) = 225 \<and>
   uint (rx_buffer frame_400 ! 3) = 225 \<and>
   frame_accepted frame_400 \<and>
   co2meter_handle_input True frame_400 attached =
     Inr (attached\<lparr>intfdata := Some (Live (attached_dev\<lparr>work_data := True, ready := 1,
                                                          co2_level := 400\<rparr>))\<rparr>) \<and>
   retval frame_wrapped = 0 \<and> 5 \<le> transfer_size frame_wrapped \<and>
   rx_buffer frame_wrapped ! 0 = 0x50 \<and> rx_buffer frame_wrapped ! 4 = 0x0d \<and>
   uint (rx_buffer frame_wrapped ! 0) + uint (rx_buffer frame_wrapped ! 1) +
     uint (rx_buffer frame_wrapped ! 2) = 336 \<and>
   uint (rx_buffer frame_wrapped ! 3) = 80 \<and>
   \<not> frame_accepted frame_wrapped \<and>
   co2meter_handle_input True frame_wrapped attached = Inr attached"
  using checksum_compared_as_integer_sum [of attached attached_dev frame_400]
        checksum_compared_as_integer_sum [of attached attached_dev frame_wrapped]
  by (simp add: attached_eq attached_dev_def frame_400_def frame_wrapped_def rx_buffer_def
      USB_BUF_SIZE_def frame_level_def)

text \<open>
  Claim C4, as stated: the frame \<open>50 01 90 91 0d\<close> is accepted and yields
  \<open>ready = true\<close> and \<open>cached_reading = 400\<close>. The code rejects it: the sum of the first
  three bytes is \<open>0xe1\<close>, not \<open>0x91\<close>. On the freshly attached device the iteration
  leaves \<open>ready = 0\<close> and the reading 0.
\<close>

theorem frame_with_checksum_91_rejected:
  "\<not> frame_accepted \<lparr>retval = 0, transfer_size = 5, payload = [0x50, 0x01, 0x90, 0x91, 0x0d]\<rparr> \<and>
   co2meter_handle_input True
     \<lparr>retval = 0, transfer_size = 5, payload = [0x50, 0x01, 0x90, 0x91, 0x0d]\<rparr> attached =
   Inr attached \<and>
   intfdata attached = Some (Live attached_dev) \<and>
   ready attached_dev = 0 \<and> co2_level attached_dev = 0"
  by (simp add: co2meter_handle_input_def mutex_lock_def mutex_unlock_def schedule_work_def
      attached_eq attached_dev_def frame_accepted_def rx_buffer_def USB_BUF_SIZE_def)

text \<open>
  Claim C4, amended: the frame \<open>50 01 90 e1 0d\<close>, whose fourth byte is the sum of the
  first three, is accepted whenever at least five bytes were transferred, whatever
  follows the five bytes: after the iteration \<open>ready = 1\<close> and the cached reading is
  400.
\<close>

theorem frame_with_checksum_e1_reads_400:
  assumes "intfdata k = Some (Live dev)" and "\<not> lock dev" and "5 \<le> t"
  shows "co2meter_handle_input True
           \<lparr>retval = 0, transfer_size = t,
            payload = 0x50 # 0x01 # 0x90 # 0xE1 # 0x0d # rest\<rparr> k =
         Inr (k\<lparr>intfdata := Some (Live (dev\<lparr>work_data := True, ready := 1,
                                                co2_level := 400\<rparr>))\<rparr>)"
proof -
  let ?msg = "\<lparr>retval = 0, transfer_size = t,
               payload = 0x50 # 0x01 # 0x90 # 0xE1 # 0x0d # rest\<rparr>"
  have b: "rx_buffer ?msg ! 0 = 0x50" "rx_buffer ?msg ! 1 = 0x01" "rx_buffer ?msg ! 2 = 0x90"
    "rx_buffer ?msg ! 3 = 0xE1" "rx_buffer ?msg ! 4 = 0x0d"
    by (simp_all add: rx_buffer_nth)
  have acc: "frame_accepted ?msg"
    using assms(3) b by (simp add: frame_accepted_def Let_def)
  have lev: "frame_level ?msg = 400"
    using b by (simp add: frame_level_def Let_def)
  show ?thesis
    using handle_input_accepted [OF assms(1) assms(2) acc] by (simp add: lev)
qed

theorem frame_with_checksum_e1_reads_400_witness:
  "intfdata attached = Some (Live attached_dev) \<and> \<not> lock attached_dev \<and> (5 :: int) \<le> 5 \<and>
   co2meter_handle_input True
     \<lparr>retval = 0, transfer_size = 5, payload = [0x50, 0x01, 0x90, 0xE1, 0x0d]\<rparr> attached =
   Inr (attached\<lparr>intfdata := Some (Live (attached_dev\<lparr>work_data := True, ready := 1,
                                                        co2_level := 400\<rparr>))\<rparr>)"
  using frame_with_checksum_e1_reads_400 [of attached attached_dev 5 "[]"]
  by (simp add: attached_eq attached_dev_def)

text \<open>
  Claim C5. An iteration whose transfer fails, or transfers fewer than five bytes, or
  returns a buffer with \<open>byte[0]\<close> other than \<open>0x50\<close>, a checksum mismatch (modulo 256
  or as integers) or \<open>byte[4]\<close> other than \<open>0x0d\<close>, rejects the frame: the iteration
  returns, \<open>ready\<close> and the cached reading are as before, the guard is free, nothing is
  logged, and the work item is queued again. The only field that is written is
  \<open>work_data\<close>.
\<close>

theorem invalid_frame_leaves_reading:
  assumes "intfdata k = Some (Live dev)" and "\<not> lock dev"
    and "retval msg \<noteq> 0 \<or> transfer_size msg < 5 \<or> rx_buffer msg ! 0 \<noteq> 0x50 \<or>
         (uint (rx_buffer msg ! 0) + uint (rx_buffer msg ! 1) + uint (rx_buffer msg ! 2)) mod 256
            \<noteq> uint (rx_buffer msg ! 3) \<or>
         uint (rx_buffer msg ! 0) + uint (rx_buffer msg ! 1) + uint (rx_buffer msg ! 2)
            \<noteq> uint (rx_buffer msg ! 3) \<or>
         rx_buffer msg ! 4 \<noteq> 0x0d"
  shows "co2meter_handle_input True msg k =
           Inr (k\<lparr>intfdata := Some (Live (dev\<lparr>work_data := True\<rparr>))\<rparr>)"
proof -
  have "\<not> frame_accepted msg"
    using assms(3) byte_mod_256 [of "rx_buffer msg ! 3"]
    by (auto simp add: frame_accepted_def Let_def)
  then show ?thesis
    using handle_input_rejected assms(1,2) by blast
qed

theorem invalid_frame_leaves_reading_witness:
  "intfdata warmed = Some (Live warmed_dev) \<and> \<not> lock warmed_dev \<and>
   ready warmed_dev = 1 \<and> co2_level warmed_dev = 400 \<and> work_data warmed_dev \<and>
   retval \<lparr>retval = - 110, transfer_size = 0, payload = []\<rparr> \<noteq> 0 \<and>
   co2meter_handle_input True \<lparr>retval = - 110, transfer_size = 0, payload = []\<rparr> warmed =
     Inr warmed \<and>
   transfer_size \<lparr>retval = 0, transfer_size = 4, payload = [0x50, 0x01, 0x90, 0xE1]\<rparr> < 5 \<and>
   co2meter_handle_input True
     \<lparr>retval = 0, transfer_size = 4, payload = [0x50, 0x01, 0x90, 0xE1]\<rparr> warmed =
     Inr warmed \<and>
   rx_buffer \<lparr>retval = 0, transfer_size = 5, payload = [0x42, 0x12, 0x34, 0x88, 0x0d]\<rparr> ! 0
     \<noteq> 0x50 \<and>
   co2meter_handle_input True
     \<lparr>retval = 0, transfer_size = 5, payload = [0x42, 0x12, 0x34, 0x88, 0x0d]\<rparr> warmed =
     Inr warmed \<and>
   uint (rx_buffer frame_wrapped ! 0) + uint (rx_buffer frame_wrapped ! 1) +
     uint (rx_buffer frame_wrapped ! 2) \<noteq> uint (rx_buffer frame_wrapped ! 3) \<and>
   co2meter_handle_input True frame_wrapped warmed = Inr warmed \<and>
   rx_buffer \<lparr>retval = 0, transfer_size = 5, payload = [0x50, 0x02, 0x00, 0x52, 0x0a]\<rparr> ! 4
     \<noteq> 0x0d \<and>
   co2meter_handle_input True
     \<lparr>retval = 0, transfer_size = 5, payload = [0x50, 0x02, 0x00, 0x52, 0x0a]\<rparr> warmed =
     Inr warmed"
  using invalid_frame_leaves_reading
          [of warmed warmed_dev "\<lparr>retval = - 110, transfer_size = 0, payload = []\<rparr>"]
        invalid_frame_leaves_reading
          [of warmed warmed_dev
              "\<lparr>retval = 0, transfer_size = 4, payload = [0x50, 0x01, 0x90, 0xE1]\<rparr>"]
        invalid_frame_leaves_reading
          [of warmed warmed_dev
              "\<lparr>retval = 0, transfer_size = 5, payload = [0x42, 0x12, 0x34, 0x88, 0x0d]\<rparr>"]
        invalid_frame_leaves_reading [of warmed warmed_dev frame_wrapped]
        invalid_frame_leaves_reading
          [of warmed warmed_dev
              "\<lparr>retval = 0, transfer_size = 5, payload = [0x50, 0x02, 0x00, 0x52, 0x0a]\<rparr>"]
  by (simp add: warmed_eq warmed_dev_def attached_dev_def frame_wrapped_def rx_buffer_def
      USB_BUF_SIZE_def)

subsection \<open>The consumer session\<close>

text \<open>
  While the guard is free, \<open>open\<close> and \<open>read\<close> report "no such device"
  (\<open>-ENODEV\<close>) and leave the kernel state as it was: \<open>open\<close> when no interface has the
  requested minor number and when it finds \<open>ready\<close> to be 0, \<open>read\<close> when the file's
  \<open>private_data\<close> is \<open>NULL\<close>.
\<close>

lemma no_such_device_with_guard_free:
  "(minor k \<noteq> Some m \<longrightarrow> co2meter_open m f a k = Inr (- ENODEV, k)) \<and>
   (minor k = Some m \<and> intfdata k = Some (Live dev) \<and> \<not> lock dev \<and> ready dev = 0 \<longrightarrow>
      co2meter_open m f a k = Inr (- ENODEV, k)) \<and>
   (private_data k f = None \<longrightarrow> co2meter_read f count pos k = Inr ((- ENODEV, [], pos), k))"
  by (auto simp add: co2meter_open_def co2meter_read_def mutex_lock_def mutex_unlock_def)

text \<open>
  Claim C6. \<open>open\<close> fails with "no such device" whenever no device has the requested
  minor number and whenever \<open>ready\<close> is false at open time, \<open>read\<close> fails with it on a
  file without a session, and each failing call leaves the device state unchanged.

  The code does not, for a device that is attached and not yet ready. After a
  successful probe and one iteration of the poll loop whose buffer allocation failed,
  the device has minor 192 and \<open>ready = 0\<close>, and the iteration has returned with the
  mutex held (the missing \<open>mutex_unlock\<close> of claims C2 and C9). \<open>open\<close> on minor 192
  then stops in \<open>mutex_lock\<close> at line 194 and never reaches the test of \<open>ready\<close>: it
  does not return \<open>-ENODEV\<close>, it does not return.
\<close>

theorem open_blocks_on_unready_device_after_alloc_failure:
  "(case co2meter_handle_input False msg attached of
      Inl e \<Rightarrow> False
    | Inr k \<Rightarrow>
        minor k = Some 192 \<and>
        intfdata k = Some (Live (attached_dev\<lparr>lock := True\<rparr>)) \<and>
        ready (attached_dev\<lparr>lock := True\<rparr>) = 0 \<and>
        co2meter_open 192 file data_alloc k = Inl MutexBlocked)"
  by (simp add: attached_eq attached_dev_def co2meter_handle_input_def co2meter_open_def
      mutex_lock_def schedule_work_def)

text \<open>
  Claim C7. When \<open>open\<close> succeeds on a device whose cached reading is \<open>v\<close>, the
  session it stores holds the decimal rendering of \<open>v\<close> followed by a newline: the
  first \<open>buf_size\<close> bytes of \<open>buf\<close> are that text, \<open>buf_size\<close> is the number of decimal
  digits plus one, and at most 11. In every state in which the file still holds that
  session, \<open>read\<close> at offset \<open>pos\<close> for \<open>count\<close> bytes copies
  \<open>min count (buf_size - pos)\<close> bytes of the text from \<open>pos\<close> on, returns that number and
  advances the offset by it; once \<open>pos\<close> has reached \<open>buf_size\<close> it returns 0.
\<close>

theorem session_text_is_decimal_snapshot:
  assumes "co2meter_open m f a k = Inr (0, k')"
    and "intfdata k = Some (Live dev)" and "co2_level dev = v"
  shows "\<exists>fd. private_data k' f = Some (Live fd) \<and>
           take (buf_size fd) (buf fd) = decimal (unat v) @ [CHR 0x0A] \<and>
           is_decimal_of (decimal (unat v)) (unat v) \<and>
           buf_size fd = length (decimal (unat v)) + 1 \<and>
           buf_size fd \<le> 11 \<and>
           (\<forall>k2 count pos. private_data k2 f = Some (Live fd) \<longrightarrow>
              co2meter_read f count pos k2 =
                Inr ((int (min count (buf_size fd - pos)),
                      take (min count (buf_size fd - pos)) (drop pos (take (buf_size fd) (buf fd))),
                      pos + min count (buf_size fd - pos)), k2)) \<and>
           (\<forall>k2 count pos. private_data k2 f = Some (Live fd) \<and> buf_size fd \<le> pos \<longrightarrow>
              co2meter_read f count pos k2 = Inr ((0, [], pos), k2))"
proof -
  let ?text = "decimal (unat v) @ [CHR 0x0A]"
  let ?fd = "\<lparr>buf = ?text @ replicate (CO2METER_DATA_SIZE - length ?text) (CHR 0x00),
              buf_size = length ?text\<rparr>"
  obtain dev' where o: "intfdata k = Some (Live dev')"
      "k' = k\<lparr>private_data := (private_data k)(f := Some (Live
                     \<lparr>buf = scnprintf CO2METER_DATA_SIZE (co2_level dev') @
                             replicate (CO2METER_DATA_SIZE - length (scnprintf CO2METER_DATA_SIZE (co2_level dev'))) (CHR 0x00),
                      buf_size = length (scnprintf CO2METER_DATA_SIZE (co2_level dev'))\<rparr>))\<rparr>"
    using open_success [OF assms(1)] by blast
  have "dev' = dev" using o(1) assms(2) by simp
  then have pd: "private_data k' f = Some (Live ?fd)"
    using o(2) assms(3) by (simp add: scnprintf_u32 CO2METER_DATA_SIZE_def)
  have t: "take (buf_size ?fd) (buf ?fd) = ?text" by simp
  have len: "buf_size ?fd = length (decimal (unat v)) + 1" by simp
  have le: "buf_size ?fd \<le> 11" using decimal_u32_length [of v] by simp
  have rd: "\<forall>k2 count pos. private_data k2 f = Some (Live ?fd) \<longrightarrow>
              co2meter_read f count pos k2 =
                Inr ((int (min count (buf_size ?fd - pos)),
                      take (min count (buf_size ?fd - pos)) (drop pos (take (buf_size ?fd) (buf ?fd))),
                      pos + min count (buf_size ?fd - pos)), k2)"
    by (simp add: co2meter_read_def simple_read_from_buffer_eq)
  have eof: "\<forall>k2 count pos. private_data k2 f = Some (Live ?fd) \<and> buf_size ?fd \<le> pos \<longrightarrow>
              co2meter_read f count pos k2 = Inr ((0, [], pos), k2)"
    by (simp add: co2meter_read_def simple_read_from_buffer_def)
  show ?thesis
    using pd t decimal_is_decimal [of "unat v"] len le rd eof by blast
qed

theorem session_text_is_decimal_snapshot_witness:
  "co2meter_open 192 0 True warmed = Inr (0, opened) \<and>
   intfdata warmed = Some (Live warmed_dev) \<and> co2_level warmed_dev = 400 \<and>
   private_data opened 0 = Some (Live session_400) \<and>
   take (buf_size session_400) (buf session_400) = ''400'' @ [CHR 0x0A] \<and>
   buf_size session_400 = 4 \<and>
   co2meter_read 0 10 0 opened = Inr ((4, ''400'' @ [CHR 0x0A], 4), opened) \<and>
   co2meter_read 0 2 1 opened = Inr ((2, ''00'', 3), opened) \<and>
   co2meter_read 0 10 4 opened = Inr ((0, [], 4), opened) \<and>
   private_data refreshed 0 = Some (Live session_400) \<and>
   co2meter_read 0 10 0 refreshed = Inr ((4, ''400'' @ [CHR 0x0A], 4), refreshed)"
proof -
  have o: "co2meter_open 192 0 True warmed = Inr (0, opened)"
    unfolding open_warmed by (simp add: opened_eq warmed_eq)
  have d: "intfdata warmed = Some (Live warmed_dev)" by (simp add: warmed_eq)
  have v: "co2_level warmed_dev = 400" by (simp add: warmed_dev_def)
  have p: "private_data opened 0 = Some (Live session_400)" by (simp add: opened_eq)
  have q: "private_data refreshed 0 = Some (Live session_400)"
    by (simp add: refreshed_eq opened_eq)
  obtain fd where fd: "private_data opened 0 = Some (Live fd)"
    and rd: "\<forall>k2 count pos. private_data k2 0 = Some (Live fd) \<longrightarrow>
              co2meter_read 0 count pos k2 =
                Inr ((int (min count (buf_size fd - pos)),
                      take (min count (buf_size fd - pos)) (drop pos (take (buf_size fd) (buf fd))),
                      pos + min count (buf_size fd - pos)), k2)"
    and eof: "\<forall>k2 count pos. private_data k2 0 = Some (Live fd) \<and> buf_size fd \<le> pos \<longrightarrow>
              co2meter_read 0 count pos k2 = Inr ((0, [], pos), k2)"
    using session_text_is_decimal_snapshot [OF o d v] by blast
  have s: "fd = session_400" using fd p by simp
  have r1: "co2meter_read 0 10 0 opened = Inr ((4, ''400'' @ [CHR 0x0A], 4), opened)"
    using rd p s by (simp add: session_400_def)
  have r2: "co2meter_read 0 2 1 opened = Inr ((2, ''00'', 3), opened)"
    using rd p s by (simp add: session_400_def)
  have r3: "co2meter_read 0 10 4 opened = Inr ((0, [], 4), opened)"
    using eof p s by (simp add: session_400_def)
  have r4: "co2meter_read 0 10 0 refreshed = Inr ((4, ''400'' @ [CHR 0x0A], 4), refreshed)"
    using rd q s by (simp add: session_400_def)
  show ?thesis using o d v p q r1 r2 r3 r4 by (simp add: session_400_def)
qed

text \<open>
  Claim C8. An iteration of the poll loop leaves every session as it is, so a session
  keeps the text and length it got at \<open>open\<close> whatever the loop writes to \<open>ready\<close>
  and the cached reading later. Conversely \<open>open\<close>, \<open>read\<close> and \<open>release\<close> leave the
  device structure as it is (\<open>ready\<close> and the cached reading with it), and touch no
  session but that of their own file. Two successful opens on devices with the same
  cached reading store the same session.
\<close>

theorem sessions_and_cached_reading_are_separate:
  "(co2meter_handle_input b msg k = Inr k1 \<longrightarrow> private_data k1 = private_data k) \<and>
   (co2meter_open m f a k = Inr (r, k2) \<longrightarrow>
      intfdata k2 = intfdata k \<and> (\<forall>g. g \<noteq> f \<longrightarrow> private_data k2 g = private_data k g)) \<and>
   (co2meter_read f count pos k = Inr (x, k3) \<longrightarrow> k3 = k) \<and>
   (co2meter_release f k = Inr (r', k4) \<longrightarrow>
      intfdata k4 = intfdata k \<and> (\<forall>g. g \<noteq> f \<longrightarrow> private_data k4 g = private_data k g)) \<and>
   (co2meter_open m f a k = Inr (0, k5) \<and> co2meter_open m' f' a' k' = Inr (0, k6) \<and>
    intfdata k = Some (Live dev) \<and> intfdata k' = Some (Live dev') \<and>
    co2_level dev = co2_level dev' \<longrightarrow> private_data k5 f = private_data k6 f')"
proof -
  have poll: "co2meter_handle_input b msg k = Inr k1 \<longrightarrow> private_data k1 = private_data k"
    using handle_input_sessions [of b msg k k1] by simp
  have opn: "co2meter_open m f a k = Inr (r, k2) \<longrightarrow>
      intfdata k2 = intfdata k \<and> (\<forall>g. g \<noteq> f \<longrightarrow> private_data k2 g = private_data k g)"
    using open_device [of m f a k r k2] open_other_sessions [of m f a k r k2] by simp
  have rd: "co2meter_read f count pos k = Inr (x, k3) \<longrightarrow> k3 = k"
    using read_state [of f count pos k x k3] by simp
  have cls: "co2meter_release f k = Inr (r', k4) \<longrightarrow>
      intfdata k4 = intfdata k \<and> (\<forall>g. g \<noteq> f \<longrightarrow> private_data k4 g = private_data k g)"
    using release_device [of f k r' k4] release_other_sessions [of f k r' k4] by simp
  have again: "co2meter_open m f a k = Inr (0, k5) \<and> co2meter_open m' f' a' k' = Inr (0, k6) \<and>
    intfdata k = Some (Live dev) \<and> intfdata k' = Some (Live dev') \<and>
    co2_level dev = co2_level dev' \<longrightarrow> private_data k5 f = private_data k6 f'"
    using open_same_text [of m f a k k5 m' f' a' k' k6 dev dev'] by simp
  show ?thesis
    using poll opn rd cls again by (intro conjI)
qed

theorem sessions_and_cached_reading_are_separate_witness:
  "co2meter_handle_input True frame_512 opened = Inr refreshed \<and>
   private_data refreshed = private_data opened \<and>
   intfdata refreshed = Some (Live (warmed_dev\<lparr>co2_level := 512\<rparr>)) \<and>
   co2meter_open 192 0 True warmed = Inr (0, opened) \<and>
   intfdata opened = intfdata warmed \<and>
   private_data opened 1 = private_data warmed 1 \<and>
   co2meter_read 0 10 0 opened = Inr ((4, ''400'' @ [CHR 0x0A], 4), opened) \<and>
   co2meter_release 0 opened = Inr (0, closed) \<and>
   intfdata closed = intfdata opened \<and>
   private_data closed 1 = private_data opened 1 \<and>
   co2meter_open 192 1 True opened = Inr (0, opened_twice) \<and>
   intfdata opened = Some (Live warmed_dev) \<and>
   private_data opened_twice 1 = private_data opened 0 \<and>
   private_data opened 0 = Some (Live session_400)"
proof -
  have h: "co2meter_handle_input True frame_512 opened = Inr refreshed"
    by (simp add: handle_input_opened refreshed_eq)
  have o: "co2meter_open 192 0 True warmed = Inr (0, opened)"
    unfolding open_warmed by (simp add: opened_eq warmed_eq)
  have p: "private_data opened 0 = Some (Live session_400)" by (simp add: opened_eq)
  have d: "intfdata warmed = Some (Live warmed_dev)" by (simp add: warmed_eq)
  have d': "intfdata opened = Some (Live warmed_dev)" by (simp add: opened_eq)
  have rl: "co2meter_release 0 opened = Inr (0, closed)"
    using p by (simp add: co2meter_release_def closed_def)
  have o2: "co2meter_open 192 1 True opened = Inr (0, opened_twice)"
    by (simp add: co2meter_open_def opened_eq warmed_dev_def attached_dev_def mutex_lock_def
        mutex_unlock_def opened_twice_def Let_def)
  have one: "(1::nat) \<noteq> 0" by simp
  note sep = sessions_and_cached_reading_are_separate
  have "private_data refreshed = private_data opened"
    using sep [where k = opened and b = True and msg = frame_512 and ?k1.0 = refreshed] h
    by simp
  moreover have "intfdata opened = intfdata warmed \<and> private_data opened 1 = private_data warmed 1"
    using sep [where k = warmed and m = 192 and f = 0 and a = True and r = 0 and ?k2.0 = opened]
      o one by simp
  moreover have "co2meter_read 0 10 0 opened = Inr ((4, ''400'' @ [CHR 0x0A], 4), opened)"
    using p by (simp add: co2meter_read_def simple_read_from_buffer_def session_400_def)
  moreover have "intfdata closed = intfdata opened \<and> private_data closed 1 = private_data opened 1"
    using sep [where k = opened and f = 0 and r' = 0 and ?k4.0 = closed] rl one by simp
  moreover have "private_data opened_twice 1 = private_data opened 0"
    using sep [where k = warmed and m = 192 and f = 0 and a = True and ?k5.0 = opened
               and k' = opened and m' = 192 and f' = 1 and a' = True and ?k6.0 = opened_twice
               and dev = warmed_dev and dev' = warmed_dev] o o2 d d'
    by simp
  moreover have "intfdata refreshed = Some (Live (warmed_dev\<lparr>co2_level := 512\<rparr>))"
    by (simp add: refreshed_eq)
  ultimately show ?thesis using h o p rl o2 d' by simp
qed

subsection \<open>The guard\<close>

text \<open>
  Claim C9. Every operation that takes the guard releases it before it returns, and
  detach releases it before the device structure is freed.

  The code does not, in two places. On the freshly attached device an iteration whose
  buffer allocation fails returns with \<open>lock\<close> still set (the same missing
  \<open>mutex_unlock\<close> as in claim C2). And \<open>co2meter_disconnect\<close> takes the guard and then
  frees the structure without releasing it: after detach of the warmed device the
  freed structure has \<open>lock = True\<close>.
\<close>

theorem guard_held_at_return_and_at_free:
  "co2meter_handle_input False msg attached =
     Inr (attached\<lparr>intfdata := Some (Live (attached_dev\<lparr>lock := True\<rparr>)), dmesg := [NoBuffer]\<rparr>) \<and>
   co2meter_disconnect warmed =
     Inr (warmed\<lparr>minor := None,
                 intfdata := Some (Freed (warmed_dev\<lparr>lock := True, work_data := False\<rparr>))\<rparr>)"
  by (simp add: attached_eq warmed_eq attached_dev_def warmed_dev_def co2meter_handle_input_def
      co2meter_disconnect_def cancel_work_sync_def mutex_lock_def schedule_work_def
      co2meter_delete_def)

text \<open>
  Claim C10. When the allocation of the session structure fails, \<open>open\<close> returns an
  error, does not dereference the failed allocation and stores no null session.

  The code does not check the result of \<open>kzalloc\<close>: on the warmed device, \<open>open\<close> with
  a failed allocation writes through the null pointer and does not return.
\<close>

theorem open_dereferences_failed_allocation:
  "co2meter_open 192 file False warmed = Inl NullPointer"
  by (simp add: warmed_eq warmed_dev_def attached_dev_def co2meter_open_def mutex_lock_def)

end
